theory Spec2Isabelle
  imports Main
begin

section \<open>JavaScript values\<close>

text \<open>
  \<^verbatim>\<open>server.js\<close> keeps four module-level variables (\<^verbatim>\<open>orders\<close>, \<^verbatim>\<open>products\<close>,
  \<^verbatim>\<open>banners\<close>, \<^verbatim>\<open>orderIdCounter\<close>) and mirrors each in a JSON file. Everything it stores
  comes from \<^verbatim>\<open>JSON.parse\<close>, from a request body parsed by \<^verbatim>\<open>express.json()\<close>, from an
  object literal or from \<^verbatim>\<open>orderIdCounter++\<close>, so a value is one of the JSON shapes,
  \<^verbatim>\<open>undefined\<close>, \<^verbatim>\<open>NaN\<close> or an infinity.

  A number is an IEEE double. \<open>JNum n\<close> is the double that is the integer \<open>n\<close>,
  \<open>JDyadic m k\<close> with odd \<open>m\<close> and positive \<open>k\<close> is the double \<open>m / 2 ^ k\<close>, which is not an
  integer; \<open>JInf True\<close> and \<open>JInf False\<close> are the two infinities. Negative zero is not
  told apart from zero: the program never divides by it. An object is the list of its
  own properties in insertion order, a string the list of its code units (below 256).
\<close>

datatype jsval =
    JUndefined
  | JNull
  | JBool bool
  | JNum int
  | JDyadic int nat
  | JNaN
  | JInf bool
  | JStr string
  | JArr "jsval list"
  | JObj "(string \<times> jsval) list"

datatype js_error =
    TypeError string
  | ReferenceError string
  | Error string

fun message :: "js_error \<Rightarrow> string" where
  "message (TypeError m) = m"
| "message (ReferenceError m) = m"
| "message (Error m) = m"

text \<open>ToBoolean, as used by \<^verbatim>\<open>!x\<close>, \<^verbatim>\<open>x || y\<close> and \<^verbatim>\<open>if (x)\<close>.\<close>

fun truthy :: "jsval \<Rightarrow> bool" where
  "truthy JUndefined = False"
| "truthy JNull = False"
| "truthy (JBool b) = b"
| "truthy (JNum n) = (n \<noteq> 0)"
| "truthy (JDyadic m k) = (m \<noteq> 0)"
| "truthy JNaN = False"
| "truthy (JInf b) = True"
| "truthy (JStr s) = (s \<noteq> [])"
| "truthy (JArr xs) = True"
| "truthy (JObj kvs) = True"

text \<open>\<^verbatim>\<open>a || b\<close>\<close>

definition js_or :: "jsval \<Rightarrow> jsval \<Rightarrow> jsval" where
  "js_or a b = (if truthy a then a else b)"

fun lookup :: "(string \<times> jsval) list \<Rightarrow> string \<Rightarrow> jsval" where
  "lookup [] k = JUndefined"
| "lookup ((k', v) # kvs) k = (if k' = k then v else lookup kvs k)"

text \<open>
  \<^verbatim>\<open>v.k\<close> for a value that is neither \<^verbatim>\<open>null\<close> nor \<^verbatim>\<open>undefined\<close>. The keys read by
  \<^verbatim>\<open>server.js\<close> (\<^verbatim>\<open>customer\<close>, \<^verbatim>\<open>address\<close>, \<^verbatim>\<open>items\<close>, \<^verbatim>\<open>id\<close>, \<^verbatim>\<open>status\<close>, \<^verbatim>\<open>notes\<close>, ...) are
  properties of no prototype, so on a primitive or an array they are \<^verbatim>\<open>undefined\<close>. The only
  exception is \<^verbatim>\<open>length\<close>, which the source reads for logging alone.
\<close>

fun js_prop :: "jsval \<Rightarrow> string \<Rightarrow> jsval" where
  "js_prop (JObj kvs) k = lookup kvs k"
| "js_prop v k = JUndefined"

definition nullish :: "jsval \<Rightarrow> bool" where
  "nullish v = (v = JUndefined \<or> v = JNull)"

text \<open>\<^verbatim>\<open>v.k\<close> in general: reading a property of \<^verbatim>\<open>null\<close> or \<^verbatim>\<open>undefined\<close> throws.\<close>

definition cannot_read :: "jsval \<Rightarrow> string \<Rightarrow> js_error" where
  "cannot_read v k =
     TypeError (''Cannot read properties of '' @ (if v = JNull then ''null'' else ''undefined'')
       @ '' (reading '' @ [CHR 0x27] @ k @ [CHR 0x27] @ '')'')"

definition get :: "jsval \<Rightarrow> string \<Rightarrow> js_error + jsval" where
  "get v k = (if nullish v then Inl (cannot_read v k) else Inr (js_prop v k))"

text \<open>\<^verbatim>\<open>o.k = v\<close> on an object: an existing property keeps its place, a new one goes last.\<close>

fun assign :: "(string \<times> jsval) list \<Rightarrow> string \<Rightarrow> jsval \<Rightarrow> (string \<times> jsval) list" where
  "assign [] k v = [(k, v)]"
| "assign ((k', v') # kvs) k v = (if k' = k then (k, v) # kvs else (k', v') # assign kvs k v)"

fun set_prop :: "jsval \<Rightarrow> string \<Rightarrow> jsval \<Rightarrow> jsval" where
  "set_prop (JObj kvs) k v = JObj (assign kvs k v)"
| "set_prop w k v = w"

section \<open>Numbers\<close>

text \<open>
  \<open>bits n\<close> is the length of \<open>n\<close> in binary.
\<close>

fun bits :: "nat \<Rightarrow> nat" where
  "bits n = (if n = 0 then 0 else Suc (bits (n div 2)))"

declare bits.simps [simp del]

text \<open>The number \<open>m / 2 ^ k\<close>, in the form the model keeps numbers in.\<close>

fun dyadic :: "int \<Rightarrow> nat \<Rightarrow> jsval" where
  "dyadic m 0 = JNum m"
| "dyadic m (Suc k) = (if even m then dyadic (m div 2) k else JDyadic m (Suc k))"

text \<open>
  The double nearest to \<open>p / q\<close> for positive \<open>p\<close> and \<open>q\<close>, ties going to the even
  significand (the rounding of every IEEE operation and of every numeric literal).
  With \<open>2 ^ l \<le> p / q < 2 ^ (l + 1)\<close>, the doubles around \<open>p / q\<close> are the multiples of
  \<open>2 ^ ex\<close> for \<open>ex = l - 52\<close>, and of \<open>2 ^ - 1074\<close> in the subnormal range; a result of
  \<open>2 ^ 1024\<close> or more is \<^verbatim>\<open>Infinity\<close>.
\<close>

definition nearest_double :: "nat \<Rightarrow> nat \<Rightarrow> jsval" where
  "nearest_double p q =
     (let e0 = int (bits p) - int (bits q);
          l = (if (if 0 \<le> e0 then q * 2 ^ nat e0 \<le> p else q \<le> p * 2 ^ nat (- e0))
               then e0 else e0 - 1);
          ex = max (l - 52) (- 1074);
          num = (if 0 \<le> ex then p else p * 2 ^ nat (- ex));
          den = (if 0 \<le> ex then q * 2 ^ nat ex else q);
          k = num div den;
          r = num mod den;
          k' = (if den < 2 * r \<or> (2 * r = den \<and> odd k) then k + 1 else k)
      in if 0 \<le> ex
         then (if 2 ^ 1024 \<le> k' * 2 ^ nat ex then JInf True else JNum (int (k' * 2 ^ nat ex)))
         else dyadic (int k') (nat (- ex)))"

fun negate :: "jsval \<Rightarrow> jsval" where
  "negate (JNum n) = JNum (- n)"
| "negate (JDyadic m k) = JDyadic (- m) k"
| "negate (JInf b) = JInf (\<not> b)"
| "negate v = v"

text \<open>The double nearest to \<open>p / q\<close> for an integer \<open>p\<close> and a positive \<open>q\<close>.\<close>

definition double_of :: "int \<Rightarrow> nat \<Rightarrow> jsval" where
  "double_of p q =
     (if p = 0 then JNum 0
      else if 0 < p then nearest_double (nat p) q
      else negate (nearest_double (nat (- p)) q))"

text \<open>\<^verbatim>\<open>x + 1\<close> for a number \<^verbatim>\<open>x\<close>: the double nearest to the exact sum.\<close>

fun js_add1 :: "jsval \<Rightarrow> jsval" where
  "js_add1 (JNum n) = double_of (n + 1) 1"
| "js_add1 (JDyadic m k) = double_of (m + 2 ^ k) (2 ^ k)"
| "js_add1 v = v"

subsection \<open>Strings as numbers\<close>

text \<open>
  StringToNumber of ECMAScript: white space is trimmed; the empty string is 0; a literal
  is a signed decimal literal (\<^verbatim>\<open>Infinity\<close>, or digits with an optional fraction and an
  optional exponent) or an unsigned literal in base 16, 8 or 2; anything else is \<^verbatim>\<open>NaN\<close>.
  The white space below code unit 256 is listed.
\<close>

definition white_space :: "char \<Rightarrow> bool" where
  "white_space c = (c \<in> {CHR 0x09, CHR 0x0A, CHR 0x0B, CHR 0x0C, CHR 0x0D, CHR 0x20, CHR 0xA0})"

definition trim :: "string \<Rightarrow> string" where
  "trim s = rev (dropWhile white_space (rev (dropWhile white_space s)))"

definition digit_of :: "nat \<Rightarrow> char \<Rightarrow> nat option" where
  "digit_of base c =
     (let n = of_char c;
          v = (if 48 \<le> n \<and> n \<le> 57 then Some (n - 48)
               else if 97 \<le> n \<and> n \<le> 122 then Some (n - 87)
               else if 65 \<le> n \<and> n \<le> 90 then Some (n - 55)
               else None)
      in case v of None \<Rightarrow> None | Some x \<Rightarrow> if x < base then Some x else None)"

fun digits_from :: "nat \<Rightarrow> nat \<Rightarrow> string \<Rightarrow> nat option" where
  "digits_from base acc [] = Some acc"
| "digits_from base acc (c # cs) =
     (case digit_of base c of
        None \<Rightarrow> None
      | Some x \<Rightarrow> digits_from base (acc * base + x) cs)"

text \<open>The value of a non-empty string of digits.\<close>

definition digits :: "nat \<Rightarrow> string \<Rightarrow> nat option" where
  "digits base cs = (if cs = [] then None else digits_from base 0 cs)"

definition decimal_digit :: "char \<Rightarrow> bool" where
  "decimal_digit c = (digit_of 10 c \<noteq> None)"

text \<open>What follows the digits of a decimal literal: nothing, or an exponent.\<close>

definition exponent_part :: "string \<Rightarrow> int option" where
  "exponent_part s =
     (case s of
        [] \<Rightarrow> Some 0
      | c # t \<Rightarrow>
          if c = CHR ''e'' \<or> c = CHR ''E'' then
            (case t of
               [] \<Rightarrow> None
             | sg # u \<Rightarrow>
                 if sg = CHR ''+'' then map_option int (digits 10 u)
                 else if sg = CHR ''-'' then map_option (\<lambda>n. - int n) (digits 10 u)
                 else map_option int (digits 10 t))
          else None)"

text \<open>The double nearest to \<open>m * 10 ^ e\<close>.\<close>

definition scaled :: "nat \<Rightarrow> int \<Rightarrow> jsval" where
  "scaled m e =
     (if 0 \<le> e then double_of (int m * 10 ^ nat e) 1 else double_of (int m) (10 ^ nat (- e)))"

definition unsigned_decimal :: "string \<Rightarrow> jsval" where
  "unsigned_decimal s =
     (if s = ''Infinity'' then JInf True
      else
        (let ip = takeWhile decimal_digit s;
             r1 = dropWhile decimal_digit s;
             fp = (case r1 of
                     [] \<Rightarrow> []
                   | c # t \<Rightarrow> if c = CHR ''.'' then takeWhile decimal_digit t else []);
             r2 = (case r1 of
                     [] \<Rightarrow> []
                   | c # t \<Rightarrow> if c = CHR ''.'' then dropWhile decimal_digit t else r1)
         in if ip = [] \<and> fp = [] then JNaN
            else
              (case (digits 10 (ip @ fp), exponent_part r2) of
                 (Some m, Some e) \<Rightarrow> scaled m (e - int (length fp))
               | _ \<Rightarrow> JNaN)))"

definition signed_decimal :: "string \<Rightarrow> jsval" where
  "signed_decimal s =
     (case s of
        [] \<Rightarrow> JNaN
      | c # t \<Rightarrow>
          if c = CHR ''+'' then unsigned_decimal t
          else if c = CHR ''-'' then negate (unsigned_decimal t)
          else unsigned_decimal s)"

definition radix_literal :: "nat \<Rightarrow> string \<Rightarrow> jsval" where
  "radix_literal base s = (case digits base s of None \<Rightarrow> JNaN | Some n \<Rightarrow> double_of (int n) 1)"

definition StringToNumber :: "string \<Rightarrow> jsval" where
  "StringToNumber s =
     (let t = trim s in
      case t of
        [] \<Rightarrow> JNum 0
      | [c] \<Rightarrow> signed_decimal t
      | c # p # r \<Rightarrow>
          if c = CHR ''0'' \<and> (p = CHR ''x'' \<or> p = CHR ''X'') then radix_literal 16 r
          else if c = CHR ''0'' \<and> (p = CHR ''o'' \<or> p = CHR ''O'') then radix_literal 8 r
          else if c = CHR ''0'' \<and> (p = CHR ''b'' \<or> p = CHR ''B'') then radix_literal 2 r
          else signed_decimal t)"

subsection \<open>Values as numbers\<close>

text \<open>
  An object or an array becomes a number by way of its string. An object parsed from JSON
  has the inherited \<^verbatim>\<open>toString\<close>, which gives \<^verbatim>\<open>[object Object]\<close>, unless it has a
  property of its own under that name: that property is not a function, and the
  conversion throws. The string of an array joins the strings of its elements with
  commas, \<^verbatim>\<open>null\<close> and \<^verbatim>\<open>undefined\<close> counting as empty.
\<close>

fun unprintable :: "jsval \<Rightarrow> bool" and unprintable_list :: "jsval list \<Rightarrow> bool" where
  "unprintable (JObj kvs) = (''toString'' \<in> set (map fst kvs))"
| "unprintable (JArr xs) = unprintable_list xs"
| "unprintable v = False"
| "unprintable_list [] = False"
| "unprintable_list (x # xs) = (unprintable x \<or> unprintable_list xs)"

text \<open>
  The number of an array whose string can be made. With two elements or more the string
  has a comma and is no literal. With one element it is the string of that element, and
  the string of a number reads back as that number.
\<close>

fun array_number :: "jsval list \<Rightarrow> jsval" where
  "array_number [] = JNum 0"
| "array_number [x] =
     (case x of
        JUndefined \<Rightarrow> JNum 0
      | JNull \<Rightarrow> JNum 0
      | JBool b \<Rightarrow> JNaN
      | JStr s \<Rightarrow> StringToNumber s
      | JArr ys \<Rightarrow> array_number ys
      | JObj kvs \<Rightarrow> JNaN
      | _ \<Rightarrow> x)"
| "array_number (x # y # zs) = JNaN"

text \<open>ToNumber of ECMAScript (ToNumeric is the same where there is no BigInt).\<close>

definition ToNumber :: "jsval \<Rightarrow> js_error + jsval" where
  "ToNumber v =
     (case v of
        JUndefined \<Rightarrow> Inr JNaN
      | JNull \<Rightarrow> Inr (JNum 0)
      | JBool b \<Rightarrow> Inr (JNum (if b then 1 else 0))
      | JStr s \<Rightarrow> Inr (StringToNumber s)
      | JArr xs \<Rightarrow>
          if unprintable_list xs then Inl (TypeError ''Cannot convert object to primitive value'')
          else Inr (array_number xs)
      | JObj kvs \<Rightarrow>
          if unprintable v then Inl (TypeError ''Cannot convert object to primitive value'')
          else Inr JNaN
      | _ \<Rightarrow> Inr v)"

section \<open>Files\<close>

text \<open>
  \<^verbatim>\<open>JSON.parse(JSON.stringify(v))\<close>: a property whose value is \<^verbatim>\<open>undefined\<close> is left out, an
  \<^verbatim>\<open>undefined\<close> array element becomes \<^verbatim>\<open>null\<close>, and so do \<^verbatim>\<open>NaN\<close> and the infinities
  wherever they stand. A finite number is written in digits that read back as the same
  double.
\<close>

fun json_value :: "jsval \<Rightarrow> jsval"
  and json_elems :: "jsval list \<Rightarrow> jsval list"
  and json_members :: "(string \<times> jsval) list \<Rightarrow> (string \<times> jsval) list" where
  "json_value (JArr xs) = JArr (json_elems xs)"
| "json_value (JObj kvs) = JObj (json_members kvs)"
| "json_value JNaN = JNull"
| "json_value (JInf b) = JNull"
| "json_value v = v"
| "json_elems [] = []"
| "json_elems (x # xs) = (if x = JUndefined then JNull else json_value x) # json_elems xs"
| "json_members [] = []"
| "json_members ((k, v) # kvs) =
     (if v = JUndefined then json_members kvs else (k, json_value v) # json_members kvs)"

text \<open>
  A file is modelled by what \<^verbatim>\<open>fs.readFile\<close> followed by \<^verbatim>\<open>JSON.parse\<close> makes of it:
  the read fails (\<open>Absent\<close>), the parse fails (\<open>Unparsable\<close>), or a value comes back.
\<close>

datatype file_state = Absent | Unparsable | Document jsval

datatype fname = ORDERS_FILE | PRODUCTS_FILE | BANNERS_FILE | COUNTER_FILE

type_synonym disk = "fname \<Rightarrow> file_state"

text \<open>
  What the environment decides: whether \<^verbatim>\<open>fs.mkdir\<close> fails, and which files reject a
  \<^verbatim>\<open>fs.writeFile\<close>. A rejected write leaves the file as it was.
\<close>

record faults =
  mkdir_fails :: bool
  unwritable :: "fname set"

definition no_faults :: faults where
  "no_faults = \<lparr>mkdir_fails = False, unwritable = {}\<rparr>"

text \<open>
  \<^verbatim>\<open>try { await fs.writeFile(F, JSON.stringify(v, null, 2)); return true; } catch { return false; }\<close>
  \<^verbatim>\<open>JSON.stringify(undefined)\<close> is \<^verbatim>\<open>undefined\<close>, which \<^verbatim>\<open>fs.writeFile\<close> rejects.
\<close>

definition save :: "faults \<Rightarrow> fname \<Rightarrow> jsval \<Rightarrow> disk \<Rightarrow> bool \<times> disk" where
  "save e f v d =
     (if v = JUndefined \<or> f \<in> unwritable e then (False, d)
      else (True, d(f := Document (json_value v))))"

text \<open>\<^verbatim>\<open>JSON.parse(await fs.readFile(F, 'utf8'))\<close>\<close>

definition read_json :: "disk \<Rightarrow> fname \<Rightarrow> js_error + jsval" where
  "read_json d f =
     (case d f of
        Absent \<Rightarrow> Inl (Error ''ENOENT: no such file or directory'')
      | Unparsable \<Rightarrow> Inl (Error ''Unexpected token in JSON'')
      | Document v \<Rightarrow> Inr v)"

section \<open>The in-memory cache\<close>

record store =
  orders :: jsval
  products :: jsval
  banners :: jsval
  orderIdCounter :: jsval

text \<open>The values the four \<^verbatim>\<open>let\<close> declarations give at module load.\<close>

definition initial_store :: store where
  "initial_store = \<lparr>orders = JArr [], products = JArr [], banners = JArr [],
     orderIdCounter = JNum 1001\<rparr>"

definition saveOrders :: "faults \<Rightarrow> disk \<Rightarrow> store \<Rightarrow> bool \<times> disk" where
  "saveOrders e d s = save e ORDERS_FILE (orders s) d"

definition saveProducts :: "faults \<Rightarrow> disk \<Rightarrow> store \<Rightarrow> bool \<times> disk" where
  "saveProducts e d s = save e PRODUCTS_FILE (products s) d"

definition saveBanners :: "faults \<Rightarrow> disk \<Rightarrow> store \<Rightarrow> bool \<times> disk" where
  "saveBanners e d s = save e BANNERS_FILE (banners s) d"

definition saveCounter :: "faults \<Rightarrow> disk \<Rightarrow> store \<Rightarrow> bool \<times> disk" where
  "saveCounter e d s = save e COUNTER_FILE (JObj [(''orderIdCounter'', orderIdCounter s)]) d"

section \<open>Start-up: \<^verbatim>\<open>initializeStorage\<close>\<close>

text \<open>
  \<^verbatim>\<open>getDefaultProducts()\<close> and \<^verbatim>\<open>getDefaultBanners()\<close>: \<^verbatim>\<open>server.js\<close> calls both (lines 50
  and 62) and declares neither, and none of the modules it requires puts them in the
  global scope. Evaluating either call throws a \<^verbatim>\<open>ReferenceError\<close>.
\<close>

definition getDefaultProducts :: "js_error + jsval" where
  "getDefaultProducts = Inl (ReferenceError ''getDefaultProducts is not defined'')"

definition getDefaultBanners :: "js_error + jsval" where
  "getDefaultBanners = Inl (ReferenceError ''getDefaultBanners is not defined'')"

text \<open>
  Lines 33 to 41. The assignment to \<^verbatim>\<open>orders\<close> comes before \<^verbatim>\<open>orders.length\<close> is read for
  the log line, which throws when the file holds \<^verbatim>\<open>null\<close>; the handler then starts over
  from the empty list. \<^verbatim>\<open>saveOrders\<close> reports a failed write by its result, which is dropped.
\<close>

definition orders_fallback :: "faults \<Rightarrow> disk \<Rightarrow> store \<Rightarrow> disk \<times> store" where
  "orders_fallback e d s = (let s' = s\<lparr>orders := JArr []\<rparr> in (snd (saveOrders e d s'), s'))"

definition load_orders :: "faults \<Rightarrow> disk \<Rightarrow> store \<Rightarrow> disk \<times> store" where
  "load_orders e d s =
     (case read_json d ORDERS_FILE of
        Inl x \<Rightarrow> orders_fallback e d s
      | Inr v \<Rightarrow>
          (let s1 = s\<lparr>orders := v\<rparr> in
           case get v ''length'' of
             Inl x \<Rightarrow> orders_fallback e d s1
           | Inr n \<Rightarrow> (d, s1)))"

text \<open>
  Lines 44 to 53 and 56 to 65. An exception thrown inside the \<^verbatim>\<open>catch\<close> block leaves the
  block; the first component of the result is that exception, if any.
\<close>

definition products_fallback :: "faults \<Rightarrow> disk \<Rightarrow> store \<Rightarrow> js_error option \<times> disk \<times> store" where
  "products_fallback e d s =
     (case getDefaultProducts of
        Inl x \<Rightarrow> (Some x, d, s)
      | Inr v \<Rightarrow> (let s' = s\<lparr>products := v\<rparr> in (None, snd (saveProducts e d s'), s')))"

definition load_products :: "faults \<Rightarrow> disk \<Rightarrow> store \<Rightarrow> js_error option \<times> disk \<times> store" where
  "load_products e d s =
     (case read_json d PRODUCTS_FILE of
        Inl x \<Rightarrow> products_fallback e d s
      | Inr v \<Rightarrow>
          (let s1 = s\<lparr>products := v\<rparr> in
           case get v ''length'' of
             Inl x \<Rightarrow> products_fallback e d s1
           | Inr n \<Rightarrow> (None, d, s1)))"

definition banners_fallback :: "faults \<Rightarrow> disk \<Rightarrow> store \<Rightarrow> js_error option \<times> disk \<times> store" where
  "banners_fallback e d s =
     (case getDefaultBanners of
        Inl x \<Rightarrow> (Some x, d, s)
      | Inr v \<Rightarrow> (let s' = s\<lparr>banners := v\<rparr> in (None, snd (saveBanners e d s'), s')))"

definition load_banners :: "faults \<Rightarrow> disk \<Rightarrow> store \<Rightarrow> js_error option \<times> disk \<times> store" where
  "load_banners e d s =
     (case read_json d BANNERS_FILE of
        Inl x \<Rightarrow> banners_fallback e d s
      | Inr v \<Rightarrow>
          (let s1 = s\<lparr>banners := v\<rparr> in
           case get v ''length'' of
             Inl x \<Rightarrow> banners_fallback e d s1
           | Inr n \<Rightarrow> (None, d, s1)))"

text \<open>
  Lines 68 to 76. The handler writes the counter that is in memory; it assigns nothing.
  \<^verbatim>\<open>counterObj.orderIdCounter\<close> throws when the file holds \<^verbatim>\<open>null\<close>.
\<close>

definition load_counter :: "faults \<Rightarrow> disk \<Rightarrow> store \<Rightarrow> disk \<times> store" where
  "load_counter e d s =
     (case read_json d COUNTER_FILE of
        Inl x \<Rightarrow> (snd (saveCounter e d s), s)
      | Inr counterObj \<Rightarrow>
          (case get counterObj ''orderIdCounter'' of
             Inl x \<Rightarrow> (snd (saveCounter e d s), s)
           | Inr v \<Rightarrow> (d, s\<lparr>orderIdCounter := js_or v (JNum 1001)\<rparr>)))"

text \<open>
  Lines 26 to 81. The outer \<^verbatim>\<open>catch\<close> logs whatever escapes and returns, so the function
  always completes; what was assigned and written before the exception stays.
\<close>

definition initializeStorage :: "faults \<Rightarrow> disk \<Rightarrow> store \<Rightarrow> disk \<times> store" where
  "initializeStorage e d s =
     (if mkdir_fails e then (d, s)
      else
        (let (d1, s1) = load_orders e d s in
         case load_products e d1 s1 of
           (Some x, d2, s2) \<Rightarrow> (d2, s2)
         | (None, d2, s2) \<Rightarrow>
             (case load_banners e d2 s2 of
                (Some x, d3, s3) \<Rightarrow> (d3, s3)
              | (None, d3, s3) \<Rightarrow> load_counter e d3 s3)))"

text \<open>
  Line 317: a process runs \<^verbatim>\<open>initializeStorage\<close> once, on the freshly declared variables,
  before it listens.
\<close>

definition startup :: "faults \<Rightarrow> disk \<Rightarrow> disk \<times> store" where
  "startup e d = initializeStorage e d initial_store"

section \<open>The routes\<close>

text \<open>A response is the status code and the value handed to \<^verbatim>\<open>res.json\<close>.\<close>

type_synonym response = "nat \<times> jsval"

definition failure :: "string \<Rightarrow> jsval" where
  "failure m = JObj [(''success'', JBool False), (''message'', JStr m)]"

subsection \<open>\<^verbatim>\<open>GET /api/data\<close>, \<^verbatim>\<open>POST /api/data\<close>, \<^verbatim>\<open>GET /api/orders\<close>\<close>

definition get_api_data :: "store \<Rightarrow> response" where
  "get_api_data s = (200, JObj [(''products'', products s), (''banners'', banners s)])"


definition get_api_orders :: "store \<Rightarrow> response" where
  "get_api_orders s = (200, orders s)"

subsection \<open>\<^verbatim>\<open>POST /api/orders\<close>\<close>

text \<open>The two readings of the clock: \<^verbatim>\<open>Date.now()\<close> as text, and \<^verbatim>\<open>new Date().toISOString()\<close>.\<close>

record clock =
  now :: string
  toISOString :: string

text \<open>Line 162: \<^verbatim>\<open>!orderData.customer || !orderData.address || !orderData.items\<close>\<close>

definition missing_fields :: "jsval \<Rightarrow> js_error + bool" where
  "missing_fields orderData =
     (case get orderData ''customer'' of
        Inl x \<Rightarrow> Inl x
      | Inr customer \<Rightarrow>
          Inr (\<not> truthy customer \<or> \<not> truthy (js_prop orderData ''address'')
               \<or> \<not> truthy (js_prop orderData ''items'')))"

text \<open>
  \<^verbatim>\<open>orderIdCounter++\<close>: the operand is converted to a number, which is the value of the
  expression; the variable gets that number plus one. A conversion that throws leaves
  the variable as it was.
\<close>

definition post_incr :: "jsval \<Rightarrow> js_error + jsval \<times> jsval" where
  "post_incr v = (case ToNumber v of Inl x \<Rightarrow> Inl x | Inr old \<Rightarrow> Inr (old, js_add1 old))"

text \<open>Lines 169 to 191, given the value of \<^verbatim>\<open>orderIdCounter++\<close>.\<close>

definition newOrder :: "clock \<Rightarrow> jsval \<Rightarrow> jsval \<Rightarrow> jsval" where
  "newOrder c i orderData =
     (let customer = js_prop orderData ''customer'';
          address = js_prop orderData ''address''
      in JObj
        [(''id'', i),
         (''orderId'', JStr (''ORD-'' @ now c)),
         (''customer'', JObj
            [(''fullName'', js_prop customer ''fullName''),
             (''phone'', js_prop customer ''phone''),
             (''email'', js_or (js_prop customer ''email'') JNull)]),
         (''address'', JObj
            [(''houseNo'', js_prop address ''houseNo''),
             (''street'', js_prop address ''street''),
             (''city'', js_prop address ''city''),
             (''state'', js_prop address ''state''),
             (''pincode'', js_prop address ''pincode''),
             (''landmark'', js_or (js_prop address ''landmark'') JNull)]),
         (''items'', js_prop orderData ''items''),
         (''totalAmount'', js_prop orderData ''totalAmount''),
         (''paymentMethod'', js_or (js_prop orderData ''paymentMethod'') (JStr ''COD'')),
         (''notes'', js_or (js_prop orderData ''notes'') (JStr [])),
         (''status'', JStr ''Pending''),
         (''orderDate'', JStr (toISOString c))])"

text \<open>\<^verbatim>\<open>orders.push(o)\<close>: only an array has the method.\<close>

definition push :: "jsval \<Rightarrow> jsval \<Rightarrow> js_error + jsval" where
  "push v x =
     (case v of
        JArr xs \<Rightarrow> Inr (JArr (xs @ [x]))
      | _ \<Rightarrow> Inl (if nullish v then cannot_read v ''push''
                  else TypeError ''orders.push is not a function''))"

text \<open>
  Lines 157 to 215. Besides the response, the new disk and the new store, the result
  carries the handler's local \<^verbatim>\<open>newOrder\<close> when the handler got as far as building it.
  The \<^verbatim>\<open>catch\<close> block answers 400 with the exception's message.
\<close>

definition post_api_orders ::
    "faults \<Rightarrow> clock \<Rightarrow> jsval \<Rightarrow> disk \<Rightarrow> store \<Rightarrow> response \<times> jsval option \<times> disk \<times> store" where
  "post_api_orders e c orderData d s =
     (case missing_fields orderData of
        Inl x \<Rightarrow> ((400, failure (message x)), None, d, s)
      | Inr True \<Rightarrow> ((400, failure ''Missing required fields''), None, d, s)
      | Inr False \<Rightarrow>
          (case post_incr (orderIdCounter s) of
             Inl x \<Rightarrow> ((400, failure (message x)), None, d, s)
           | Inr (i, n) \<Rightarrow>
               (let s1 = s\<lparr>orderIdCounter := n\<rparr>;
                    order = newOrder c i orderData
                in case push (orders s1) order of
                     Inl x \<Rightarrow> ((400, failure (message x)), Some order, d, s1)
                   | Inr os \<Rightarrow>
                       (let s2 = s1\<lparr>orders := os\<rparr>;
                            (ok1, d1) = saveOrders e d s2;
                            (ok2, d2) = saveCounter e d1 s2
                        in if ok1 \<and> ok2
                           then ((201, JObj [(''success'', JBool True),
                                             (''orderId'', js_prop order ''orderId''),
                                             (''order'', order)]),
                                 Some order, d2, s2)
                           else ((400, failure ''Failed to save order''), Some order, d2, s2)))))"

subsection \<open>\<^verbatim>\<open>GET\<close>, \<^verbatim>\<open>PUT\<close> and \<^verbatim>\<open>DELETE /api/orders/:id\<close>\<close>

text \<open>
  \<^verbatim>\<open>o => o.id === parseInt(req.params.id)\<close>. The second argument is the result of
  \<^verbatim>\<open>parseInt\<close>, \<open>None\<close> for \<^verbatim>\<open>NaN\<close>, which is equal to nothing.
\<close>

definition id_is :: "int option \<Rightarrow> jsval \<Rightarrow> js_error + bool" where
  "id_is rid x =
     (case get x ''id'' of
        Inl err \<Rightarrow> Inl err
      | Inr v \<Rightarrow> Inr (case rid of None \<Rightarrow> False | Some n \<Rightarrow> v = JNum n))"

text \<open>
  \<^verbatim>\<open>Array.prototype.findIndex\<close>, with \<open>None\<close> for \<^verbatim>\<open>-1\<close>. \<^verbatim>\<open>Array.prototype.find\<close> returns
  the element at that index; the element is an object of the array, so an assignment to
  one of its properties is an update of the list at that index.
\<close>

fun findIndex :: "('a \<Rightarrow> js_error + bool) \<Rightarrow> 'a list \<Rightarrow> js_error + nat option" where
  "findIndex p [] = Inr None"
| "findIndex p (x # xs) =
     (case p x of
        Inl err \<Rightarrow> Inl err
      | Inr True \<Rightarrow> Inr (Some 0)
      | Inr False \<Rightarrow>
          (case findIndex p xs of
             Inl err \<Rightarrow> Inl err
           | Inr None \<Rightarrow> Inr None
           | Inr (Some i) \<Rightarrow> Inr (Some (Suc i))))"

definition find_order :: "jsval \<Rightarrow> int option \<Rightarrow> js_error + (jsval list \<times> nat) option" where
  "find_order v rid =
     (case v of
        JArr xs \<Rightarrow>
          (case findIndex (id_is rid) xs of
             Inl err \<Rightarrow> Inl err
           | Inr None \<Rightarrow> Inr None
           | Inr (Some i) \<Rightarrow> Inr (Some (xs, i)))
      | _ \<Rightarrow> Inl (if nullish v then cannot_read v ''find''
                  else TypeError ''orders.find is not a function''))"

definition not_found :: response where
  "not_found = (404, failure ''Order not found'')"


text \<open>Lines 230 to 257. The result of \<^verbatim>\<open>saveOrders\<close> is not looked at.\<close>

definition put_api_order ::
    "faults \<Rightarrow> int option \<Rightarrow> jsval \<Rightarrow> disk \<Rightarrow> store \<Rightarrow> response \<times> disk \<times> store" where
  "put_api_order e rid body d s =
     (case find_order (orders s) rid of
        Inl err \<Rightarrow> ((500, failure ''Failed to update order''), d, s)
      | Inr None \<Rightarrow> (not_found, d, s)
      | Inr (Some (xs, i)) \<Rightarrow>
          (case get body ''status'' of
             Inl err \<Rightarrow> ((500, failure ''Failed to update order''), d, s)
           | Inr status \<Rightarrow>
               (let order = xs ! i;
                    order1 = (if truthy status then set_prop order ''status'' status else order);
                    notes = js_prop body ''notes'';
                    order2 = (if notes \<noteq> JUndefined then set_prop order1 ''notes'' notes else order1);
                    s' = s\<lparr>orders := JArr (xs[i := order2])\<rparr>;
                    d' = snd (saveOrders e d s')
                in ((200, JObj [(''success'', JBool True), (''order'', order2)]), d', s'))))"


subsection \<open>A run of the server\<close>








section \<open>Sample data\<close>

definition sample_clock :: clock where
  "sample_clock = \<lparr>now = ''1700000000000'', toISOString = ''2023-11-14T22:13:20.000Z''\<rparr>"

text \<open>The payload of the specification's scenario, with the items left open.\<close>

definition payload_with_items :: "jsval \<Rightarrow> jsval" where
  "payload_with_items items = JObj
     [(''customer'', JObj [(''fullName'', JStr ''A''), (''phone'', JStr ''1'')]),
      (''address'', JObj [(''houseNo'', JStr ''7''), (''street'', JStr ''Main''), (''city'', JStr ''Pune''),
                          (''state'', JStr ''MH''), (''pincode'', JStr ''411001'')]),
      (''items'', items),
      (''totalAmount'', JNum 40)]"

definition scenario_payload :: jsval where
  "scenario_payload = payload_with_items (JArr [JObj [(''sku'', JStr ''x''), (''qty'', JNum 2)]])"

definition incomplete_payload :: jsval where
  "incomplete_payload = JObj [(''customer'', JObj [(''fullName'', JStr ''A'')])]"

definition empty_disk :: disk where
  "empty_disk = (\<lambda>f. Absent)"

definition counter_write_fails :: faults where
  "counter_write_fails = \<lparr>mkdir_fails = False, unwritable = {COUNTER_FILE}\<rparr>"



text \<open>A disk with every file in place except \<^verbatim>\<open>products.json\<close>.\<close>

definition stale_disk :: disk where
  "stale_disk = empty_disk
     (ORDERS_FILE := Document (JArr []),
      BANNERS_FILE := Document (JArr [JObj [(''title'', JStr ''Sale'')]]),
      COUNTER_FILE := Document (JObj [(''orderIdCounter'', JNum 1005)]))"


text \<open>A disk with a catalog and a \<^verbatim>\<open>counter.json\<close> that holds \<^verbatim>\<open>{}\<close>.\<close>

definition keyless_counter_disk :: disk where
  "keyless_counter_disk = empty_disk
     (PRODUCTS_FILE := Document (JArr []),
      BANNERS_FILE := Document (JArr []),
      COUNTER_FILE := Document (JObj []))"

text \<open>A store holding one order.\<close>

definition one_order_store :: store where
  "one_order_store = initial_store\<lparr>orderIdCounter := JNum 1002,
     orders := JArr [JObj [(''id'', JNum 1001), (''status'', JStr ''Pending''), (''notes'', JStr [])]]\<rparr>"









section \<open>Notions used in the statements\<close>



text \<open>The properties of an order other than \<^verbatim>\<open>status\<close> and \<^verbatim>\<open>notes\<close>, in their order.\<close>

definition other_fields :: "jsval \<Rightarrow> (string \<times> jsval) list" where
  "other_fields v =
     (case v of
        JObj kvs \<Rightarrow> filter (\<lambda>p. fst p \<noteq> ''status'' \<and> fst p \<noteq> ''notes'') kvs
      | _ \<Rightarrow> [])"







section \<open>Numbers below \<open>2 ^ 53\<close>\<close>

lemma bits_lower: "0 < p \<Longrightarrow> 2 ^ (bits p - 1) \<le> p"
proof (induction p rule: bits.induct)
  case (1 n)
  show ?case
  proof (cases "n div 2 = 0")
    case True
    with 1(2) have "n = 1" by (cases n) auto
    then show ?thesis by (simp add: bits.simps [of "Suc 0"] bits.simps [of 0])
  next
    case False
    then have h: "0 < n div 2" by simp
    with 1 have ih: "2 ^ (bits (n div 2) - 1) \<le> n div 2" by simp
    have b: "bits n = Suc (bits (n div 2))" using 1(2) by (simp add: bits.simps [of n])
    have "0 < bits (n div 2)" using h by (simp add: bits.simps [of "n div 2"])
    then have "(2::nat) ^ (bits n - 1) = 2 * 2 ^ (bits (n div 2) - 1)"
      unfolding b by (cases "bits (n div 2)") simp_all
    also have "\<dots> \<le> 2 * (n div 2)" using ih by simp
    also have "\<dots> \<le> n" by simp
    finally show ?thesis .
  qed
qed


lemma bits_one: "bits (Suc 0) = Suc 0"
  by (simp add: bits.simps [of "Suc 0"] bits.simps [of 0])


lemma dyadic_shift: "dyadic (m * 2 ^ j) j = JNum m"
  by (induction j arbitrary: m) simp_all

text \<open>An integer of magnitude up to \<open>2 ^ 53\<close> is a double.\<close>

lemma nearest_double_exact:
  assumes "0 < p" "p \<le> 2 ^ 53"
  shows "nearest_double p 1 = JNum (int p)"
proof -
  let ?b = "bits p"
  have lo: "2 ^ (?b - 1) \<le> p" using assms(1) by (rule bits_lower)
  have b1: "1 \<le> ?b" using assms(1) by (simp add: bits.simps [of p])
  have "?b - 1 \<le> 53"
  proof (rule power_le_imp_le_exp [of "2::nat"])
    show "1 < (2::nat)" by simp
    show "2 ^ (?b - 1) \<le> (2::nat) ^ 53" using lo assms(2) by (rule le_trans)
  qed
  then have b54: "?b \<le> 54" by simp
  have e0: "int ?b - int (bits 1) = int (?b - 1)" using b1 by (simp add: bits_one)
  have small: "p < 2 ^ 1024"
  proof -
    have "p \<le> 2 ^ 53" by (rule assms(2))
    also have "(2::nat) ^ 53 < 2 ^ 1024" by simp
    finally show ?thesis .
  qed
  consider (sub) "?b \<le> 52" | (eq) "?b = 53" | (top) "?b = 54" using b54 by linarith
  then show ?thesis
  proof cases
    case sub
    then have ex: "max (int (?b - 1) - 52) (- 1074) = - int (53 - ?b)" using b1 by simp
    have neg: "\<not> 0 \<le> - int (53 - ?b)" using sub by simp
    show ?thesis
      unfolding nearest_double_def e0 Let_def
      using lo sub b1 neg ex
      by (simp add: dyadic_shift)
  next
    case eq
    then show ?thesis
      unfolding nearest_double_def e0 Let_def
      using lo small by simp
  next
    case top
    with lo assms(2) have p: "p = 2 ^ 53" by simp
    show ?thesis
      unfolding nearest_double_def e0 Let_def
      using top by (simp add: p)
  qed
qed

text \<open>Below \<open>2 ^ 53\<close> the increment is the integer one.\<close>

lemma js_add1_exact:
  assumes "- (2 ^ 53) \<le> n" "n < 2 ^ 53"
  shows "js_add1 (JNum n) = JNum (n + 1)"
proof -
  consider "n + 1 = 0" | "0 < n + 1" | "n + 1 < 0" by linarith
  then show ?thesis
  proof cases
    case 1
    then show ?thesis by (simp add: double_of_def)
  next
    case 2
    then have "0 < nat (n + 1)" "nat (n + 1) \<le> 2 ^ 53" using assms(2) by simp_all
    from nearest_double_exact [OF this] 2 show ?thesis by (simp add: double_of_def)
  next
    case 3
    then have "0 < nat (- (n + 1))" "nat (- (n + 1)) \<le> 2 ^ 53" using assms(1) by simp_all
    from nearest_double_exact [OF this] 3 show ?thesis by (simp add: double_of_def)
  qed
qed


text \<open>A number is converted to itself, and its increment is a number.\<close>

lemma ToNumber_number: "ToNumber (JNum n) = Inr (JNum n)"
  by (simp add: ToNumber_def)








declare js_add1.simps [simp del]

section \<open>Validation of a submitted order\<close>

lemma missing_fields_falsy:
  assumes "\<not> nullish orderData"
    and "\<not> truthy (js_prop orderData ''customer'') \<or> \<not> truthy (js_prop orderData ''address'')
         \<or> \<not> truthy (js_prop orderData ''items'')"
  shows "missing_fields orderData = Inr True"
  using assms by (auto simp: missing_fields_def get_def)

lemma missing_fields_truthy:
  assumes "truthy (js_prop orderData ''customer'')" "truthy (js_prop orderData ''address'')"
    "truthy (js_prop orderData ''items'')"
  shows "missing_fields orderData = Inr False"
proof -
  have "\<not> nullish orderData" using assms(1) by (auto simp: nullish_def)
  then show ?thesis using assms by (simp add: missing_fields_def get_def)
qed

lemma post_api_orders_rejects:
  assumes "missing_fields orderData = Inr True"
  shows "post_api_orders e c orderData d s =
           ((400, failure ''Missing required fields''), None, d, s)"
  using assms by (simp add: post_api_orders_def)

lemma post_api_orders_throws:
  assumes "nullish orderData"
  shows "post_api_orders e c orderData d s =
           ((400, failure (message (cannot_read orderData ''customer''))), None, d, s)"
  using assms by (simp add: post_api_orders_def missing_fields_def get_def)

text \<open>
  Claim C7. A payload that lacks \<^verbatim>\<open>customer\<close>, \<^verbatim>\<open>address\<close> or \<^verbatim>\<open>items\<close> is answered with
  status 400; no order is built, and the store (orders and counter included) and the disk
  are the ones the request found. The message is \<^verbatim>\<open>Missing required fields\<close>, unless the
  payload itself is \<^verbatim>\<open>null\<close> or \<^verbatim>\<open>undefined\<close>, when it is the message of the exception
  that reading \<^verbatim>\<open>customer\<close> throws.
\<close>

theorem createOrder_missing_field:
  assumes "js_prop orderData ''customer'' = JUndefined \<or> js_prop orderData ''address'' = JUndefined
         \<or> js_prop orderData ''items'' = JUndefined"
  shows "\<exists>m. post_api_orders e c orderData d s = ((400, failure m), None, d, s)
           \<and> (\<not> nullish orderData \<longrightarrow> m = ''Missing required fields'')"
proof (cases "nullish orderData")
  case True
  then show ?thesis using post_api_orders_throws by blast
next
  case False
  then have "missing_fields orderData = Inr True"
    using assms by (intro missing_fields_falsy) auto
  then show ?thesis using post_api_orders_rejects by blast
qed

theorem createOrder_missing_field_witness:
  "post_api_orders no_faults sample_clock incomplete_payload empty_disk initial_store =
       ((400, failure ''Missing required fields''), None, empty_disk, initial_store)"
proof -
  have a: "js_prop incomplete_payload ''customer'' = JUndefined
      \<or> js_prop incomplete_payload ''address'' = JUndefined
      \<or> js_prop incomplete_payload ''items'' = JUndefined"
    by (simp add: incomplete_payload_def)
  have n: "\<not> nullish incomplete_payload" by (simp add: incomplete_payload_def nullish_def)
  from createOrder_missing_field [OF a, of no_faults sample_clock empty_disk initial_store] n
  show ?thesis by auto
qed

text \<open>
  An order that passes the check, from a counter that is a number and an array of orders:
  the order is built with the counter as its \<^verbatim>\<open>id\<close> and appended, the counter is
  incremented, both before the two writes.
\<close>

lemma post_api_orders_accepts:
  assumes "missing_fields orderData = Inr False"
    and "ToNumber (orderIdCounter s) = Inr i" and "orders s = JArr xs"
  shows "post_api_orders e c orderData d s =
     (let order = newOrder c i orderData;
          s2 = s\<lparr>orderIdCounter := js_add1 i, orders := JArr (xs @ [order])\<rparr>;
          d2 = snd (saveCounter e (snd (saveOrders e d s2)) s2)
      in if ORDERS_FILE \<notin> unwritable e \<and> COUNTER_FILE \<notin> unwritable e
         then ((201, JObj [(''success'', JBool True), (''orderId'', js_prop order ''orderId''),
                           (''order'', order)]), Some order, d2, s2)
         else ((400, failure ''Failed to save order''), Some order, d2, s2))"
  using assms
  by (simp add: post_api_orders_def post_incr_def push_def Let_def saveOrders_def
      saveCounter_def save_def split: prod.splits)




section \<open>Creating orders\<close>



text \<open>
  Claim C5, as the specification states it, fails: when a write fails the handler throws
  and its \<^verbatim>\<open>catch\<close> block answers 400 with a message and no order. Here the write of
  \<^verbatim>\<open>counter.json\<close> fails for the scenario's payload.
\<close>

theorem createOrder_persist_failure_counterexample:
  "fst (post_api_orders counter_write_fails sample_clock scenario_payload empty_disk initial_store) =
     (400, JObj [(''success'', JBool False), (''message'', JStr ''Failed to save order'')])"
  by (simp add: post_api_orders_def missing_fields_def get_def nullish_def scenario_payload_def
      payload_with_items_def initial_store_def post_incr_def ToNumber_number push_def Let_def
      saveOrders_def saveCounter_def save_def counter_write_fails_def failure_def)

text \<open>
  Claim C5, amended. When the payload passes the check and the write of \<^verbatim>\<open>orders.json\<close> or
  of \<^verbatim>\<open>counter.json\<close> fails, the answer is status 400 with the message
  \<^verbatim>\<open>Failed to save order\<close> and carries no order; the order stays appended to the
  in-memory \<^verbatim>\<open>orders\<close> and the counter stays incremented (by one, for \<open>n\<close> below \<open>2 ^ 53\<close>).
\<close>

theorem createOrder_persist_failure:
  assumes "truthy (js_prop orderData ''customer'')" "truthy (js_prop orderData ''address'')"
    "truthy (js_prop orderData ''items'')"
    and "orderIdCounter s = JNum n" and "orders s = JArr xs"
    and "ORDERS_FILE \<in> unwritable e \<or> COUNTER_FILE \<in> unwritable e"
  shows "(\<exists>d'. post_api_orders e c orderData d s =
           ((400, failure ''Failed to save order''), Some (newOrder c (JNum n) orderData), d',
            s\<lparr>orderIdCounter := js_add1 (JNum n),
              orders := JArr (xs @ [newOrder c (JNum n) orderData])\<rparr>))
         \<and> js_prop (failure ''Failed to save order'') ''order'' = JUndefined
         \<and> (- (2 ^ 53) \<le> n \<and> n < 2 ^ 53 \<longrightarrow> js_add1 (JNum n) = JNum (n + 1))"
proof -
  have m: "missing_fields orderData = Inr False"
    using assms(1-3) by (rule missing_fields_truthy)
  have n: "ToNumber (orderIdCounter s) = Inr (JNum n)"
    using assms(4) by (simp add: ToNumber_number)
  from post_api_orders_accepts [OF m n assms(5), of e c d] assms(6)
  show ?thesis by (auto simp: Let_def failure_def js_add1_exact)
qed

theorem createOrder_persist_failure_witness:
  "\<exists>d'. post_api_orders counter_write_fails sample_clock scenario_payload empty_disk initial_store =
           ((400, failure ''Failed to save order''),
            Some (newOrder sample_clock (JNum 1001) scenario_payload), d',
            initial_store\<lparr>orderIdCounter := JNum 1002,
              orders := JArr [newOrder sample_clock (JNum 1001) scenario_payload]\<rparr>)
         \<and> js_prop (failure ''Failed to save order'') ''order'' = JUndefined"
proof -
  have p: "truthy (js_prop scenario_payload ''customer'')"
    "truthy (js_prop scenario_payload ''address'')"
    "truthy (js_prop scenario_payload ''items'')"
    by (simp_all add: scenario_payload_def payload_with_items_def)
  have s: "orderIdCounter initial_store = JNum 1001" "orders initial_store = JArr []"
    by (simp_all add: initial_store_def)
  have w: "ORDERS_FILE \<in> unwritable counter_write_fails
      \<or> COUNTER_FILE \<in> unwritable counter_write_fails"
    by (simp add: counter_write_fails_def)
  from createOrder_persist_failure [OF p s w, of sample_clock empty_disk]
  show ?thesis by auto
qed

section \<open>Start-up and the catalog\<close>










text \<open>
  Claim C2, evaluated on the code: start-up on a storage location with none of the four
  files. \<^verbatim>\<open>orders.json\<close> is created with the empty list; the call of \<^verbatim>\<open>getDefaultProducts\<close>
  then throws, so start-up ends there. The orders are empty and the counter in memory is
  1001, but the catalog served is two empty lists, not a default catalog, and neither
  \<^verbatim>\<open>products.json\<close>, \<^verbatim>\<open>banners.json\<close> nor \<^verbatim>\<open>counter.json\<close> is written.
\<close>

theorem startup_empty_storage:
  "snd (startup no_faults empty_disk) = initial_store
   \<and> fst (startup no_faults empty_disk) = empty_disk(ORDERS_FILE := Document (JArr []))
   \<and> get_api_orders (snd (startup no_faults empty_disk)) = (200, JArr [])
   \<and> get_api_data (snd (startup no_faults empty_disk)) =
       (200, JObj [(''products'', JArr []), (''banners'', JArr [])])"
  by (simp add: startup_def initializeStorage_def no_faults_def empty_disk_def load_orders_def
      read_json_def orders_fallback_def saveOrders_def save_def Let_def initial_store_def
      load_products_def products_fallback_def getDefaultProducts_def get_api_data_def
      get_api_orders_def)

text \<open>
  Claim C3, evaluated on the code. First, \<^verbatim>\<open>products.json\<close> cannot be read while the
  other three files are in place: the exception thrown in the handler of the products
  also skips the banners and the counter, start-up writes nothing, and memory keeps the
  declared values (no banners, counter 1001) although \<^verbatim>\<open>banners.json\<close> holds a banner
  and \<^verbatim>\<open>counter.json\<close> holds 1005. Second, \<^verbatim>\<open>counter.json\<close> holds an object without
  \<^verbatim>\<open>orderIdCounter\<close>: memory falls back to 1001 and the file is left as it is.
\<close>

theorem startup_products_unreadable:
  "fst (startup no_faults stale_disk) = stale_disk
   \<and> stale_disk PRODUCTS_FILE = Absent
   \<and> stale_disk BANNERS_FILE = Document (JArr [JObj [(''title'', JStr ''Sale'')]])
   \<and> stale_disk COUNTER_FILE = Document (JObj [(''orderIdCounter'', JNum 1005)])
   \<and> snd (startup no_faults stale_disk) = initial_store
   \<and> products initial_store = JArr [] \<and> banners initial_store = JArr []
   \<and> orderIdCounter initial_store = JNum 1001
   \<and> orderIdCounter (snd (startup no_faults keyless_counter_disk)) = JNum 1001
   \<and> fst (startup no_faults keyless_counter_disk) COUNTER_FILE = Document (JObj [])"
  by (simp add: startup_def initializeStorage_def no_faults_def empty_disk_def stale_disk_def
      keyless_counter_disk_def load_orders_def orders_fallback_def saveOrders_def save_def
      read_json_def Let_def initial_store_def get_def nullish_def js_or_def
      load_products_def products_fallback_def getDefaultProducts_def
      load_banners_def load_counter_def)



section \<open>Order ids and the counter\<close>

subsection \<open>The counter within one run\<close>










subsection \<open>Memory and disk in step\<close>








subsection \<open>Ids over one run and over several\<close>









section \<open>Updating an order\<close>

lemma lookup_assign: "lookup (assign kvs k v) k' = (if k' = k then v else lookup kvs k')"
  by (induction kvs) auto

lemma filter_assign:
  assumes "\<And>w. \<not> P (k, w)"
  shows "filter P (assign kvs k v) = filter P kvs"
  using assms by (induction kvs) auto

lemma findIndex_Some:
  "findIndex p xs = Inr (Some i) \<Longrightarrow> i < length xs \<and> p (xs ! i) = Inr True"
proof (induction xs arbitrary: i)
  case Nil
  then show ?case by simp
next
  case (Cons x xs)
  then show ?case
    by (auto split: sum.splits bool.splits option.splits)
qed

lemma id_is_True:
  "id_is rid x = Inr True \<Longrightarrow> \<exists>kvs n. x = JObj kvs \<and> rid = Some n \<and> lookup kvs ''id'' = JNum n"
  by (cases x) (auto simp: id_is_def get_def nullish_def split: option.splits if_splits)

lemma find_order_Some:
  assumes "find_order v rid = Inr (Some (xs, i))"
  shows "v = JArr xs \<and> i < length xs
       \<and> (\<exists>kvs n. xs ! i = JObj kvs \<and> rid = Some n \<and> lookup kvs ''id'' = JNum n)"
proof -
  from assms have v: "v = JArr xs" and f: "findIndex (id_is rid) xs = Inr (Some i)"
    by (auto simp: find_order_def split: jsval.splits sum.splits option.splits)
  from findIndex_Some [OF f] id_is_True show ?thesis using v by blast
qed

text \<open>
  Claim C8, as the specification states it, fails for a status that is provided but
  falsy: line 242 assigns the status only when it is truthy. Here the body is
  \<^verbatim>\<open>{"status": ""}\<close> and the order keeps its status \<^verbatim>\<open>Pending\<close>.
\<close>

theorem updateOrder_empty_status_counterexample:
  "fst (put_api_order no_faults (Some 1001) (JObj [(''status'', JStr [])]) empty_disk one_order_store) =
     (200, JObj [(''success'', JBool True),
                 (''order'', JObj [(''id'', JNum 1001), (''status'', JStr ''Pending''),
                                   (''notes'', JStr [])])])"
  by (simp add: put_api_order_def find_order_def id_is_def get_def nullish_def one_order_store_def
      initial_store_def Let_def)

text \<open>
  Claim C8, amended. For an order found by its id and a body that is not \<^verbatim>\<open>null\<close>:
  the status is assigned when it is truthy and the notes when they are not \<^verbatim>\<open>undefined\<close>;
  every other property of the order keeps its value and its place, and every other
  element of \<^verbatim>\<open>orders\<close>, like the rest of the store, is what it was. With a truthy status
  and no notes the new order is the old one with \<^verbatim>\<open>status\<close> assigned; with neither it is
  the old one.
\<close>

theorem updateOrder_frame:
  assumes "find_order (orders s) rid = Inr (Some (xs, i))" and "\<not> nullish body"
  shows "\<exists>d' order'.
           put_api_order e rid body d s =
             ((200, JObj [(''success'', JBool True), (''order'', order')]), d',
              s\<lparr>orders := JArr (xs[i := order'])\<rparr>)
         \<and> i < length xs
         \<and> js_prop order' ''status'' =
             (if truthy (js_prop body ''status'') then js_prop body ''status''
              else js_prop (xs ! i) ''status'')
         \<and> js_prop order' ''notes'' =
             (if js_prop body ''notes'' \<noteq> JUndefined then js_prop body ''notes''
              else js_prop (xs ! i) ''notes'')
         \<and> (\<forall>k. k \<noteq> ''status'' \<and> k \<noteq> ''notes'' \<longrightarrow> js_prop order' k = js_prop (xs ! i) k)
         \<and> other_fields order' = other_fields (xs ! i)
         \<and> (\<not> truthy (js_prop body ''status'') \<and> js_prop body ''notes'' = JUndefined
              \<longrightarrow> order' = xs ! i)
         \<and> (truthy (js_prop body ''status'') \<and> js_prop body ''notes'' = JUndefined
              \<longrightarrow> order' = set_prop (xs ! i) ''status'' (js_prop body ''status''))
         \<and> (\<forall>j. j \<noteq> i \<longrightarrow> xs[i := order'] ! j = xs ! j)"
proof -
  from find_order_Some [OF assms(1)] obtain kvs n where
    i: "i < length xs" and o: "xs ! i = JObj kvs" by blast
  let ?st = "js_prop body ''status''" and ?nt = "js_prop body ''notes''"
  let ?o1 = "if truthy ?st then set_prop (xs ! i) ''status'' ?st else xs ! i"
  let ?o2 = "if ?nt \<noteq> JUndefined then set_prop ?o1 ''notes'' ?nt else ?o1"
  have run: "put_api_order e rid body d s =
      ((200, JObj [(''success'', JBool True), (''order'', ?o2)]),
       snd (saveOrders e d (s\<lparr>orders := JArr (xs[i := ?o2])\<rparr>)), s\<lparr>orders := JArr (xs[i := ?o2])\<rparr>)"
    using assms by (simp add: put_api_order_def get_def Let_def)
  have st: "js_prop ?o2 ''status'' = (if truthy ?st then ?st else js_prop (xs ! i) ''status'')"
    by (simp add: o lookup_assign)
  have nt: "js_prop ?o2 ''notes'' = (if ?nt \<noteq> JUndefined then ?nt else js_prop (xs ! i) ''notes'')"
    by (simp add: o lookup_assign)
  have rest: "\<forall>k. k \<noteq> ''status'' \<and> k \<noteq> ''notes'' \<longrightarrow> js_prop ?o2 k = js_prop (xs ! i) k"
    by (simp add: o lookup_assign)
  have other: "other_fields ?o2 = other_fields (xs ! i)"
    by (simp add: o other_fields_def filter_assign)
  show ?thesis
    unfolding run using i st nt rest other
    by (intro exI [of _ "snd (saveOrders e d (s\<lparr>orders := JArr (xs[i := ?o2])\<rparr>))"] exI [of _ ?o2])
       simp
qed

theorem updateOrder_frame_witness:
  "\<exists>d'. put_api_order no_faults (Some 1001) (JObj [(''status'', JStr ''Shipped'')]) empty_disk
           one_order_store =
     ((200, JObj [(''success'', JBool True),
                  (''order'', JObj [(''id'', JNum 1001), (''status'', JStr ''Shipped''),
                                    (''notes'', JStr [])])]),
      d',
      one_order_store\<lparr>orders :=
        JArr [JObj [(''id'', JNum 1001), (''status'', JStr ''Shipped''), (''notes'', JStr [])]]\<rparr>)"
proof -
  let ?o = "JObj [(''id'', JNum 1001), (''status'', JStr ''Pending''), (''notes'', JStr [])]"
  let ?b = "JObj [(''status'', JStr ''Shipped'')]"
  have f: "find_order (orders one_order_store) (Some 1001) = Inr (Some ([?o], 0))"
    by (simp add: one_order_store_def initial_store_def find_order_def id_is_def get_def nullish_def)
  have n: "\<not> nullish ?b" by (simp add: nullish_def)
  from updateOrder_frame [OF f n, of no_faults empty_disk] obtain d' order' where
    r: "put_api_order no_faults (Some 1001) ?b empty_disk one_order_store =
          ((200, JObj [(''success'', JBool True), (''order'', order')]), d',
           one_order_store\<lparr>orders := JArr ([?o][0 := order'])\<rparr>)"
    and o: "truthy (js_prop ?b ''status'') \<and> js_prop ?b ''notes'' = JUndefined
              \<longrightarrow> order' = set_prop ([?o] ! 0) ''status'' (js_prop ?b ''status'')"
    by blast
  from o have "order' = JObj [(''id'', JNum 1001), (''status'', JStr ''Shipped''), (''notes'', JStr [])]"
    by simp
  with r show ?thesis by simp
qed

end
